theory Spec2Isabelle
  imports Complex_Main
begin

section \<open>Tensor elements\<close>

text \<open>
  The script \<^verbatim>\<open>examples/hetero/hetero_link_pred.py\<close> computes on float tensors.
  An element of a float tensor is modelled as a real number or one of the three special
  values of IEEE arithmetic: the two infinities and NaN. Rounding, overflow of finite
  operations and the sign of zero are not modelled: a finite result is the exact real.
  A one-dimensional tensor is a list.
\<close>

datatype tfloat = Fin real | PInf | NInf | NaN

datatype error = RuntimeError | IndexError | KeyError

fun tf_neg :: "tfloat \<Rightarrow> tfloat" where
  "tf_neg (Fin a) = Fin (- a)"
| "tf_neg PInf = NInf"
| "tf_neg NInf = PInf"
| "tf_neg NaN = NaN"

fun tf_add :: "tfloat \<Rightarrow> tfloat \<Rightarrow> tfloat" where
  "tf_add NaN y = NaN"
| "tf_add x NaN = NaN"
| "tf_add (Fin a) (Fin b) = Fin (a + b)"
| "tf_add PInf NInf = NaN"
| "tf_add NInf PInf = NaN"
| "tf_add PInf y = PInf"
| "tf_add x PInf = PInf"
| "tf_add NInf y = NInf"
| "tf_add x NInf = NInf"

definition tf_sub :: "tfloat \<Rightarrow> tfloat \<Rightarrow> tfloat" where
  "tf_sub x y = tf_add x (tf_neg y)"

text \<open>The sign of a value that is not NaN: \<open>-1\<close>, \<open>0\<close> or \<open>1\<close>.\<close>

fun tf_sign :: "tfloat \<Rightarrow> int" where
  "tf_sign (Fin a) = (if a < 0 then - 1 else if a = 0 then 0 else 1)"
| "tf_sign PInf = 1"
| "tf_sign NInf = - 1"
| "tf_sign NaN = 0"

definition signed_inf :: "int \<Rightarrow> tfloat" where
  "signed_inf s = (if s < 0 then NInf else PInf)"

fun tf_mul :: "tfloat \<Rightarrow> tfloat \<Rightarrow> tfloat" where
  "tf_mul NaN y = NaN"
| "tf_mul x NaN = NaN"
| "tf_mul (Fin a) (Fin b) = Fin (a * b)"
| "tf_mul x y =
     (if tf_sign x = 0 \<or> tf_sign y = 0 then NaN else signed_inf (tf_sign x * tf_sign y))"

text \<open>
  Division as IEEE has it: a nonzero finite value divided by zero is an infinity,
  zero by zero is NaN; nothing is raised.
\<close>

fun tf_div :: "tfloat \<Rightarrow> tfloat \<Rightarrow> tfloat" where
  "tf_div NaN y = NaN"
| "tf_div x NaN = NaN"
| "tf_div (Fin a) (Fin b) =
     (if b = 0 then (if a = 0 then NaN else signed_inf (tf_sign (Fin a))) else Fin (a / b))"
| "tf_div (Fin a) y = Fin 0"
| "tf_div x (Fin b) = signed_inf (tf_sign x * (if b < 0 then - 1 else 1))"
| "tf_div x y = NaN"

text \<open>\<^verbatim>\<open>x.pow(2)\<close>\<close>

definition tf_pow2 :: "tfloat \<Rightarrow> tfloat" where
  "tf_pow2 x = tf_mul x x"

text \<open>\<^verbatim>\<open>x.sqrt()\<close>: NaN on a negative argument.\<close>

fun tf_sqrt :: "tfloat \<Rightarrow> tfloat" where
  "tf_sqrt (Fin a) = (if a < 0 then NaN else Fin (sqrt a))"
| "tf_sqrt PInf = PInf"
| "tf_sqrt NInf = NaN"
| "tf_sqrt NaN = NaN"

text \<open>Comparisons: every comparison with NaN is false.\<close>

fun tf_le :: "tfloat \<Rightarrow> tfloat \<Rightarrow> bool" where
  "tf_le NaN y = False"
| "tf_le x NaN = False"
| "tf_le NInf y = True"
| "tf_le x PInf = True"
| "tf_le (Fin a) (Fin b) = (a \<le> b)"
| "tf_le x y = False"

fun tf_less :: "tfloat \<Rightarrow> tfloat \<Rightarrow> bool" where
  "tf_less NaN y = False"
| "tf_less x NaN = False"
| "tf_less (Fin a) (Fin b) = (a < b)"
| "tf_less NInf NInf = False"
| "tf_less PInf PInf = False"
| "tf_less NInf y = True"
| "tf_less x PInf = True"
| "tf_less x y = False"

section \<open>Tensor operations\<close>

text \<open>\<^verbatim>\<open>t.to(pred.dtype)\<close> and \<^verbatim>\<open>t.float()\<close> on an integer tensor.\<close>

definition to_float :: "int list \<Rightarrow> tfloat list" where
  "to_float t = map (\<lambda>k. Fin (real_of_int k)) t"

text \<open>
  An elementwise binary operation on two one-dimensional tensors broadcasts: the lengths
  are equal, or one of them is 1; any other pair of shapes raises.
\<close>

definition broadcast2 ::
  "('a \<Rightarrow> 'b \<Rightarrow> 'c) \<Rightarrow> 'a list \<Rightarrow> 'b list \<Rightarrow> error + 'c list" where
  "broadcast2 f xs ys =
     (if length xs = length ys then Inr (map2 f xs ys)
      else if length xs = 1 then Inr (map (f (hd xs)) ys)
      else if length ys = 1 then Inr (map (\<lambda>x. f x (hd ys)) xs)
      else Inl RuntimeError)"

text \<open>\<^verbatim>\<open>t.sum()\<close> and \<^verbatim>\<open>t.mean()\<close>; the mean of an empty tensor is NaN (zero by zero).\<close>

definition tf_sum :: "tfloat list \<Rightarrow> tfloat" where
  "tf_sum xs = foldl tf_add (Fin 0) xs"

definition mean :: "tfloat list \<Rightarrow> tfloat" where
  "mean xs = tf_div (tf_sum xs) (Fin (real (length xs)))"

text \<open>
  Indexing a one-dimensional tensor by an integer tensor, \<^verbatim>\<open>w[target]\<close>: a negative
  index counts from the end, an index out of range raises.
\<close>

definition index1 :: "'a list \<Rightarrow> int \<Rightarrow> error + 'a" where
  "index1 w k =
     (let n = int (length w); j = (if k < 0 then n + k else k)
      in if 0 \<le> j \<and> j < n then Inr (w ! nat j) else Inl IndexError)"

fun index_select :: "'a list \<Rightarrow> int list \<Rightarrow> error + 'a list" where
  "index_select w [] = Inr []"
| "index_select w (k # ks) =
     (case index1 w k of
        Inl e \<Rightarrow> Inl e
      | Inr v \<Rightarrow> (case index_select w ks of Inl e \<Rightarrow> Inl e | Inr vs \<Rightarrow> Inr (v # vs)))"

section \<open>The weighted loss\<close>

text \<open>
  \<^verbatim>\<open>
  def weighted_mse_loss(pred, target, weight=None):
      weight = 1. if weight is None else weight[target].to(pred.dtype)
      return (weight * (pred - target.to(pred.dtype)).pow(2)).mean()
  \<close>
\<close>

definition weighted_mse_loss ::
  "tfloat list \<Rightarrow> int list \<Rightarrow> tfloat list option \<Rightarrow> error + tfloat" where
  "weighted_mse_loss pred target weight =
     (case weight of
        None \<Rightarrow>
          (case broadcast2 tf_sub pred (to_float target) of
             Inl e \<Rightarrow> Inl e
           | Inr d \<Rightarrow> Inr (mean (map (\<lambda>x. tf_mul (Fin 1) (tf_pow2 x)) d)))
      | Some w \<Rightarrow>
          (case index_select w target of
             Inl e \<Rightarrow> Inl e
           | Inr wt \<Rightarrow>
               (case broadcast2 tf_sub pred (to_float target) of
                  Inl e \<Rightarrow> Inl e
                | Inr d \<Rightarrow>
                    (case broadcast2 tf_mul wt (map tf_pow2 d) of
                       Inl e \<Rightarrow> Inl e
                     | Inr p \<Rightarrow> Inr (mean p)))))"

text \<open>
  \<^verbatim>\<open>F.mse_loss(pred, target)\<close> of the tensor library, as \<^verbatim>\<open>test\<close> calls it: the
  mean of the squared differences of the two (broadcast) tensors.
\<close>

definition mse_loss :: "tfloat list \<Rightarrow> tfloat list \<Rightarrow> error + tfloat" where
  "mse_loss input target =
     (case broadcast2 tf_sub input target of
        Inl e \<Rightarrow> Inl e
      | Inr d \<Rightarrow> Inr (mean (map tf_pow2 d)))"

text \<open>
  The loss as the specification words it: the mean over the edges \<open>i\<close> of
  \<open>weight[target[i]] * (pred[i] - target[i])^2\<close>, the weight being 1 for every label
  when no weight vector is given.
\<close>

definition spec_label_weight :: "tfloat list option \<Rightarrow> int \<Rightarrow> tfloat" where
  "spec_label_weight weight k = (case weight of None \<Rightarrow> Fin 1 | Some w \<Rightarrow> w ! nat k)"

definition spec_weighted_mse ::
  "tfloat list \<Rightarrow> int list \<Rightarrow> tfloat list option \<Rightarrow> tfloat" where
  "spec_weighted_mse pred target weight =
     tf_div
       (foldl tf_add (Fin 0)
          (map (\<lambda>i. tf_mul (spec_label_weight weight (target ! i))
                      (tf_pow2 (tf_sub (pred ! i) (Fin (real_of_int (target ! i))))))
             [0..<length pred]))
       (Fin (real (length pred)))"

definition labels_in_range :: "int list \<Rightarrow> nat \<Rightarrow> bool" where
  "labels_in_range target n = list_all (\<lambda>k. 0 \<le> k \<and> k < int n) target"

section \<open>The loss weight vector\<close>

text \<open>
  \<^verbatim>\<open>torch.bincount(t)\<close>: \<open>t\<close> holds non-negative integers (anything else raises); the
  result has one bin per value from 0 to the largest element, and is empty when \<open>t\<close> is.
\<close>

definition bincount :: "int list \<Rightarrow> error + nat list" where
  "bincount t =
     (if list_ex (\<lambda>k. k < 0) t then Inl RuntimeError
      else if t = [] then Inr []
      else Inr (map (\<lambda>v. count_list t (int v)) [0..<Suc (nat (Max (set t)))]))"

text \<open>\<^verbatim>\<open>t.max()\<close> raises on an empty tensor.\<close>

definition tensor_max :: "nat list \<Rightarrow> error + nat" where
  "tensor_max t = (if t = [] then Inl RuntimeError else Inr (Max (set t)))"

text \<open>
  \<^verbatim>\<open>
  weight = torch.bincount(train_data['user', 'movie'].edge_label)
  weight = weight.max() / weight
  \<close>
  The division of two integer tensors is the true division, into floats.
\<close>

definition label_weight :: "int list \<Rightarrow> error + tfloat list" where
  "label_weight edge_label =
     (case bincount edge_label of
        Inl e \<Rightarrow> Inl e
      | Inr cnt \<Rightarrow>
          (case tensor_max cnt of
             Inl e \<Rightarrow> Inl e
           | Inr m \<Rightarrow> Inr (map (\<lambda>c. tf_div (Fin (real m)) (Fin (real c))) cnt)))"

text \<open>
  \<^verbatim>\<open>
  if args.use_weighted_loss: ... else: weight = None
  \<close>
\<close>

definition script_weight :: "bool \<Rightarrow> int list \<Rightarrow> error + tfloat list option" where
  "script_weight use_weighted_loss edge_label =
     (if use_weighted_loss
      then (case label_weight edge_label of Inl e \<Rightarrow> Inl e | Inr w \<Rightarrow> Inr (Some w))
      else Inr None)"

section \<open>The link-level split\<close>

text \<open>
  Modelled from the spec: \<^verbatim>\<open>T.RandomLinkSplit\<close> is code of
  \<^verbatim>\<open>torch_geometric.transforms\<close>, which is not among the source files. The
  specification says that the edges of the target relation are partitioned disjointly
  across the splits by the given fractions. The edges are named by their positions
  \<open>0..<n\<close>; \<open>perm\<close> is the random order the positions are drawn in; the validation
  and the test split take their fraction of the \<open>n\<close> edges, rounded down, and the
  training split takes the rest. The fractions are given in percent.
\<close>

definition random_link_split ::
  "nat \<Rightarrow> nat \<Rightarrow> nat list \<Rightarrow> nat list \<times> nat list \<times> nat list" where
  "random_link_split num_val num_test perm =
     (let n = length perm;
          n_val = num_val * n div 100;
          n_test = num_test * n div 100;
          n_train = n - n_val - n_test
      in (take n_train perm, take n_val (drop n_train perm), drop (n_train + n_val) perm))"

text \<open>
  \<^verbatim>\<open>
  train_data, val_data, test_data = T.RandomLinkSplit(num_val=0.1, num_test=0.1, ...)(data)
  \<close>
\<close>

definition script_split :: "nat list \<Rightarrow> nat list \<times> nat list \<times> nat list" where
  "script_split perm = random_link_split 10 10 perm"

section \<open>Evaluation: clamping\<close>

text \<open>
  \<^verbatim>\<open>pred.clamp(min=lo, max=hi)\<close> is \<open>min (max x lo) hi\<close> on every element, and
  NaN stays NaN.
\<close>

definition clamp_elem :: "real \<Rightarrow> real \<Rightarrow> tfloat \<Rightarrow> tfloat" where
  "clamp_elem lo hi x =
     (if x = NaN then NaN
      else let y = (if tf_less x (Fin lo) then Fin lo else x)
           in if tf_less (Fin hi) y then Fin hi else y)"

definition clamp :: "real \<Rightarrow> real \<Rightarrow> tfloat list \<Rightarrow> tfloat list" where
  "clamp lo hi t = map (clamp_elem lo hi) t"

definition in_rating_range :: "tfloat \<Rightarrow> bool" where
  "in_rating_range x = (tf_le (Fin 0) x \<and> tf_le x (Fin 5))"

section \<open>The decoder\<close>

text \<open>
  A matrix is the list of its rows. \<^verbatim>\<open>Linear(in_features, out_features)\<close> holds a
  weight matrix of \<open>out_features\<close> rows of length \<open>in_features\<close> and a bias of length
  \<open>out_features\<close>; applied to a matrix it maps every row \<open>r\<close> to \<open>W r + b\<close>, and
  raises when a row has not \<open>in_features\<close> elements.
\<close>

record linear =
  in_features :: nat
  lin_weight :: "tfloat list list"
  lin_bias :: "tfloat list"

definition dot :: "tfloat list \<Rightarrow> tfloat list \<Rightarrow> tfloat" where
  "dot xs ys = tf_sum (map2 tf_mul xs ys)"

definition linear_row :: "linear \<Rightarrow> tfloat list \<Rightarrow> tfloat list" where
  "linear_row l r = map2 (\<lambda>w b. tf_add (dot r w) b) (lin_weight l) (lin_bias l)"

definition linear_forward :: "linear \<Rightarrow> tfloat list list \<Rightarrow> error + tfloat list list" where
  "linear_forward l x =
     (if list_all (\<lambda>r. length r = in_features l) x then Inr (map (linear_row l) x)
      else Inl RuntimeError)"

text \<open>The initial values of a layer are drawn at random: they are a parameter.\<close>

definition Linear :: "nat \<Rightarrow> nat \<Rightarrow> (nat \<Rightarrow> nat \<Rightarrow> tfloat) \<Rightarrow> (nat \<Rightarrow> tfloat) \<Rightarrow> linear" where
  "Linear n_in n_out w0 b0 =
     \<lparr>in_features = n_in,
      lin_weight = map (\<lambda>j. map (w0 j) [0..<n_in]) [0..<n_out],
      lin_bias = map b0 [0..<n_out]\<rparr>"

text \<open>\<^verbatim>\<open>x.relu()\<close>\<close>

definition tf_relu :: "tfloat \<Rightarrow> tfloat" where
  "tf_relu x = (if x = NaN then NaN else if tf_less x (Fin 0) then Fin 0 else x)"

definition relu :: "tfloat list list \<Rightarrow> tfloat list list" where
  "relu x = map (map tf_relu) x"

text \<open>\<^verbatim>\<open>torch.cat([a, b], dim=-1)\<close> of two matrices: they have the same number of rows.\<close>

definition cat_last :: "tfloat list list \<Rightarrow> tfloat list list \<Rightarrow> error + tfloat list list" where
  "cat_last a b = (if length a = length b then Inr (map2 (@) a b) else Inl RuntimeError)"

text \<open>
  \<^verbatim>\<open>
  class EdgeDecoder(torch.nn.Module):
      def __init__(self, hidden_channels):
          self.lin1 = Linear(2 * hidden_channels, hidden_channels)
          self.lin2 = Linear(hidden_channels, 1)

      def forward(self, z_dict, edge_label_index):
          row, col = edge_label_index
          z = torch.cat([z_dict['user'][row], z_dict['movie'][col]], dim=-1)
          z = self.lin1(z).relu()
          z = self.lin2(z)
          return z.view(-1)
  \<close>
\<close>

record edge_decoder =
  lin1 :: linear
  lin2 :: linear

record init_values =
  w1 :: "nat \<Rightarrow> nat \<Rightarrow> tfloat"
  b1 :: "nat \<Rightarrow> tfloat"
  w2 :: "nat \<Rightarrow> nat \<Rightarrow> tfloat"
  b2 :: "nat \<Rightarrow> tfloat"

definition EdgeDecoder :: "nat \<Rightarrow> init_values \<Rightarrow> edge_decoder" where
  "EdgeDecoder hidden_channels iv =
     \<lparr>lin1 = Linear (2 * hidden_channels) hidden_channels (w1 iv) (b1 iv),
      lin2 = Linear hidden_channels 1 (w2 iv) (b2 iv)\<rparr>"

type_synonym z_dict = "string \<rightharpoonup> tfloat list list"

definition lookup :: "z_dict \<Rightarrow> string \<Rightarrow> error + tfloat list list" where
  "lookup z_dict k = (case z_dict k of None \<Rightarrow> Inl KeyError | Some z \<Rightarrow> Inr z)"

definition decoder_forward ::
  "edge_decoder \<Rightarrow> z_dict \<Rightarrow> int list \<times> int list \<Rightarrow> error + tfloat list" where
  "decoder_forward dec z_dict edge_label_index =
     (case edge_label_index of (row, col) \<Rightarrow>
        (case lookup z_dict ''user'' of Inl e \<Rightarrow> Inl e | Inr zu \<Rightarrow>
        (case index_select zu row of Inl e \<Rightarrow> Inl e | Inr a \<Rightarrow>
        (case lookup z_dict ''movie'' of Inl e \<Rightarrow> Inl e | Inr zm \<Rightarrow>
        (case index_select zm col of Inl e \<Rightarrow> Inl e | Inr b \<Rightarrow>
        (case cat_last a b of Inl e \<Rightarrow> Inl e | Inr z \<Rightarrow>
        (case linear_forward (lin1 dec) z of Inl e \<Rightarrow> Inl e | Inr h \<Rightarrow>
        (case linear_forward (lin2 dec) (relu h) of Inl e \<Rightarrow> Inl e | Inr out \<Rightarrow>
           Inr (concat out)))))))))"

text \<open>
  The score of one candidate pair as the specification words it: the two latent vectors
  concatenated, one hidden linear layer with the non-linearity, one linear layer with
  a single output.
\<close>

definition spec_score :: "edge_decoder \<Rightarrow> tfloat list \<Rightarrow> tfloat list \<Rightarrow> tfloat" where
  "spec_score dec u m =
     hd (linear_row (lin2 dec) (map tf_relu (linear_row (lin1 dec) (u @ m))))"

definition wf_linear :: "nat \<Rightarrow> nat \<Rightarrow> linear \<Rightarrow> bool" where
  "wf_linear n_in n_out l =
     (in_features l = n_in \<and> length (lin_weight l) = n_out \<and>
      list_all (\<lambda>w. length w = n_in) (lin_weight l) \<and> length (lin_bias l) = n_out)"

definition wf_decoder :: "nat \<Rightarrow> edge_decoder \<Rightarrow> bool" where
  "wf_decoder hidden_channels dec =
     (wf_linear (2 * hidden_channels) hidden_channels (lin1 dec) \<and>
      wf_linear hidden_channels 1 (lin2 dec))"

definition wf_latent :: "nat \<Rightarrow> tfloat list list \<Rightarrow> int list \<Rightarrow> bool" where
  "wf_latent hidden_channels z idx =
     (list_all (\<lambda>r. length r = hidden_channels) z \<and> labels_in_range idx (length z))"

section \<open>The model and the training session\<close>

text \<open>
  One split: the node features and the message-passing edges (\<^verbatim>\<open>x_dict\<close>,
  \<^verbatim>\<open>edge_index_dict\<close>; the encoder alone reads them, so they are one opaque value),
  and the labelled candidate pairs of the relation \<^verbatim>\<open>('user', 'rates', 'movie')\<close>.
\<close>

record 'g hetero_data =
  graph :: 'g
  edge_label_index :: "int list \<times> int list"
  edge_label :: "int list"

text \<open>
  The encoder is \<^verbatim>\<open>to_hetero(GNNEncoder(...))\<close>, built of \<^verbatim>\<open>SAGEConv((-1, -1), ...)\<close>
  layers of the graph library, and the optimizer is the tensor library's Adam with
  automatic differentiation: they are parameters of the model. The encoder's own
  parameters have type \<open>'e\<close>, the optimizer's moments type \<open>'o\<close>.

  Modelled from the spec: the layers infer their input width lazily. The
  specification says that the encoder tolerates input feature widths unknown until the
  first forward pass, which materializes the parameters: \<open>lazy_init\<close> gives the
  parameters the first input materializes.
\<close>

record ('e, 'g, 'o) library =
  lazy_init :: "'g \<Rightarrow> 'e"
  encoder_forward :: "'e \<Rightarrow> 'g \<Rightarrow> error + z_dict"
  backward_and_step ::
    "real \<Rightarrow> 'o \<Rightarrow> 'e \<Rightarrow> edge_decoder \<Rightarrow> 'g hetero_data \<Rightarrow> tfloat list option
       \<Rightarrow> 'o \<times> 'e \<times> edge_decoder"
  no_moments :: 'o

datatype 'e lazy = Uninitialized | Materialized 'e

text \<open>
  What the run leaves behind, in order; the flag of a forward pass is whether gradient
  tracking was enabled during it, the flag of the optimizer's creation whether every
  parameter it was given had been materialized.
\<close>

datatype event =
    ModelConstructed
  | EncoderForward bool
  | DecoderForward bool
  | ZeroGrad
  | Backward
  | OptimizerStep
  | OptimizerCreated bool

record 'o adam =
  lr :: real
  moments :: 'o

record line =
  epoch :: nat
  loss :: tfloat
  train_rmse :: tfloat
  val_rmse :: tfloat
  test_rmse :: tfloat

record ('e, 'o) session =
  encoder :: "'e lazy"
  decoder :: edge_decoder
  training :: bool
  grad_enabled :: bool
  optimizer :: "'o adam option"
  trace :: "event list"
  stdout :: "line list"

text \<open>A call of the encoder: the first one materializes the lazy parameters.\<close>

definition encoder_call ::
  "('e, 'g, 'o) library \<Rightarrow> ('e, 'o) session \<Rightarrow> 'g \<Rightarrow> error + z_dict \<times> ('e, 'o) session" where
  "encoder_call L s g =
     (let e = (case encoder s of Uninitialized \<Rightarrow> lazy_init L g | Materialized e \<Rightarrow> e);
          s1 = s\<lparr>encoder := Materialized e, trace := trace s @ [EncoderForward (grad_enabled s)]\<rparr>
      in case encoder_forward L e g of Inl err \<Rightarrow> Inl err | Inr z \<Rightarrow> Inr (z, s1))"

text \<open>
  \<^verbatim>\<open>
  class Model(torch.nn.Module):
      def forward(self, x_dict, edge_index_dict, edge_label_index):
          z_dict = self.encoder(x_dict, edge_index_dict)
          return self.decoder(z_dict, edge_label_index)
  \<close>
\<close>

definition model_forward ::
  "('e, 'g, 'o) library \<Rightarrow> ('e, 'o) session \<Rightarrow> 'g \<Rightarrow> int list \<times> int list
     \<Rightarrow> error + tfloat list \<times> ('e, 'o) session" where
  "model_forward L s g eli =
     (case encoder_call L s g of
        Inl err \<Rightarrow> Inl err
      | Inr (z, s1) \<Rightarrow>
          (case decoder_forward (decoder s1) z eli of
             Inl err \<Rightarrow> Inl err
           | Inr pred \<Rightarrow>
               Inr (pred, s1\<lparr>trace := trace s1 @ [DecoderForward (grad_enabled s1)]\<rparr>)))"

text \<open>
  \<^verbatim>\<open>
  model = Model(hidden_channels=32).to(device)
  with torch.no_grad():
      model.encoder(train_data.x_dict, train_data.edge_index_dict)
  optimizer = torch.optim.Adam(model.parameters(), lr=0.01)
  \<close>
  A module is constructed in training mode, and gradient tracking is enabled when the
  script starts. \<^verbatim>\<open>no_grad\<close> disables it and puts the former value back afterwards.
\<close>

definition Model :: "nat \<Rightarrow> init_values \<Rightarrow> ('e, 'o) session" where
  "Model hidden_channels iv =
     \<lparr>encoder = Uninitialized, decoder = EdgeDecoder hidden_channels iv, training = True,
      grad_enabled = True, optimizer = None, trace = [ModelConstructed], stdout = []\<rparr>"

definition Adam :: "('e, 'g, 'o) library \<Rightarrow> real \<Rightarrow> ('e, 'o) session \<Rightarrow> ('e, 'o) session" where
  "Adam L rate s =
     s\<lparr>optimizer := Some \<lparr>lr = rate, moments = no_moments L\<rparr>,
       trace := trace s @ [OptimizerCreated (encoder s \<noteq> Uninitialized)]\<rparr>"

definition script_init ::
  "('e, 'g, 'o) library \<Rightarrow> init_values \<Rightarrow> 'g hetero_data \<Rightarrow> error + ('e, 'o) session" where
  "script_init L iv train_data =
     (let s0 = Model 32 iv;
          prev = grad_enabled s0;
          s1 = s0\<lparr>grad_enabled := False\<rparr>
      in case encoder_call L s1 (graph train_data) of
           Inl err \<Rightarrow> Inl err
         | Inr (z, s2) \<Rightarrow> Inr (Adam L (1 / 100) (s2\<lparr>grad_enabled := prev\<rparr>)))"

text \<open>
  \<^verbatim>\<open>
  def train():
      model.train()
      optimizer.zero_grad()
      pred = model(train_data.x_dict, train_data.edge_index_dict,
                   train_data['user', 'movie'].edge_label_index)
      target = train_data['user', 'movie'].edge_label
      loss = weighted_mse_loss(pred, target, weight)
      loss.backward()
      optimizer.step()
      return float(loss)
  \<close>
  Without an optimizer the name \<^verbatim>\<open>optimizer\<close> is unbound, and parameters that were
  never materialized cannot be stepped: both raise.
\<close>

definition train ::
  "('e, 'g, 'o) library \<Rightarrow> tfloat list option \<Rightarrow> 'g hetero_data \<Rightarrow> ('e, 'o) session
     \<Rightarrow> error + tfloat \<times> ('e, 'o) session" where
  "train L weight train_data s =
     (case optimizer s of
        None \<Rightarrow> Inl RuntimeError
      | Some opt \<Rightarrow>
          (let s1 = s\<lparr>training := True\<rparr>;
               s2 = s1\<lparr>trace := trace s1 @ [ZeroGrad]\<rparr>
           in case model_forward L s2 (graph train_data) (edge_label_index train_data) of
                Inl err \<Rightarrow> Inl err
              | Inr (pred, s3) \<Rightarrow>
                  (case weighted_mse_loss pred (edge_label train_data) weight of
                     Inl err \<Rightarrow> Inl err
                   | Inr l \<Rightarrow>
                       (case encoder s3 of
                          Uninitialized \<Rightarrow> Inl RuntimeError
                        | Materialized e \<Rightarrow>
                            (case backward_and_step L (lr opt) (moments opt) e (decoder s3)
                                    train_data weight of
                               (m', e', d') \<Rightarrow>
                                 Inr (l, s3\<lparr>encoder := Materialized e', decoder := d',
                                           optimizer := Some (opt\<lparr>moments := m'\<rparr>),
                                           trace := trace s3 @ [Backward, OptimizerStep]\<rparr>))))))"

text \<open>
  \<^verbatim>\<open>
  @torch.no_grad()
  def test(data):
      model.eval()
      pred = model(data.x_dict, data.edge_index_dict,
                   data['user', 'movie'].edge_label_index)
      pred = pred.clamp(min=0, max=5)
      target = data['user', 'movie'].edge_label.float()
      rmse = F.mse_loss(pred, target).sqrt()
      return float(rmse)
  \<close>
\<close>

definition test ::
  "('e, 'g, 'o) library \<Rightarrow> ('e, 'o) session \<Rightarrow> 'g hetero_data
     \<Rightarrow> error + tfloat \<times> ('e, 'o) session" where
  "test L s data =
     (let prev = grad_enabled s;
          s1 = s\<lparr>grad_enabled := False\<rparr>;
          s2 = s1\<lparr>training := False\<rparr>
      in case model_forward L s2 (graph data) (edge_label_index data) of
           Inl err \<Rightarrow> Inl err
         | Inr (pred, s3) \<Rightarrow>
             (case mse_loss (clamp 0 5 pred) (to_float (edge_label data)) of
                Inl err \<Rightarrow> Inl err
              | Inr m \<Rightarrow> Inr (tf_sqrt m, s3\<lparr>grad_enabled := prev\<rparr>)))"

text \<open>
  \<^verbatim>\<open>
  for epoch in range(1, 301):
      loss = train()
      train_rmse = test(train_data)
      val_rmse = test(val_data)
      test_rmse = test(test_data)
      print(f'Epoch: {epoch:03d}, Loss: {loss:.4f}, Train: {train_rmse:.4f}, '
            f'Val: {val_rmse:.4f}, Test: {test_rmse:.4f}')
  \<close>
  A printed line is the record of its five values.
\<close>

record 'g splits =
  train_data :: "'g hetero_data"
  val_data :: "'g hetero_data"
  test_data :: "'g hetero_data"

definition epoch_body ::
  "('e, 'g, 'o) library \<Rightarrow> tfloat list option \<Rightarrow> 'g splits \<Rightarrow> nat \<Rightarrow> ('e, 'o) session
     \<Rightarrow> error + ('e, 'o) session" where
  "epoch_body L weight ds ep s =
     (case train L weight (train_data ds) s of Inl err \<Rightarrow> Inl err | Inr (l, s1) \<Rightarrow>
     (case test L s1 (train_data ds) of Inl err \<Rightarrow> Inl err | Inr (r1, s2) \<Rightarrow>
     (case test L s2 (val_data ds) of Inl err \<Rightarrow> Inl err | Inr (r2, s3) \<Rightarrow>
     (case test L s3 (test_data ds) of Inl err \<Rightarrow> Inl err | Inr (r3, s4) \<Rightarrow>
        Inr (s4\<lparr>stdout := stdout s4 @
               [\<lparr>epoch = ep, loss = l, train_rmse = r1, val_rmse = r2, test_rmse = r3\<rparr>]\<rparr>)))))"

fun run_epochs ::
  "('e, 'g, 'o) library \<Rightarrow> tfloat list option \<Rightarrow> 'g splits \<Rightarrow> nat list \<Rightarrow> ('e, 'o) session
     \<Rightarrow> error + ('e, 'o) session" where
  "run_epochs L weight ds [] s = Inr s"
| "run_epochs L weight ds (ep # eps) s =
     (case epoch_body L weight ds ep s of
        Inl err \<Rightarrow> Inl err
      | Inr s1 \<Rightarrow> run_epochs L weight ds eps s1)"

definition epoch_loop ::
  "('e, 'g, 'o) library \<Rightarrow> tfloat list option \<Rightarrow> 'g splits \<Rightarrow> ('e, 'o) session
     \<Rightarrow> error + ('e, 'o) session" where
  "epoch_loop L weight ds s = run_epochs L weight ds [1..<301] s"

text \<open>The script from the weight vector on (lines 43 to 134).\<close>

definition script ::
  "('e, 'g, 'o) library \<Rightarrow> init_values \<Rightarrow> bool \<Rightarrow> 'g splits \<Rightarrow> error + ('e, 'o) session" where
  "script L iv use_weighted_loss ds =
     (case script_weight use_weighted_loss (edge_label (train_data ds)) of
        Inl err \<Rightarrow> Inl err
      | Inr weight \<Rightarrow>
          (case script_init L iv (train_data ds) of
             Inl err \<Rightarrow> Inl err
           | Inr s \<Rightarrow> epoch_loop L weight ds s))"

section \<open>A small instance\<close>

text \<open>
  A library whose encoder has no parameters of its own, gives every node the latent
  vector \<open>[1]\<close> and whose optimizer step changes nothing; a decoder of one hidden
  channel; one user, one movie and one labelled edge of rating 5. The decoder predicts
  \<open>relu (3 * 1 + 3 * 1) * 1 = 6\<close> for the edge.
\<close>

definition example_init :: init_values where
  "example_init =
     \<lparr>w1 = (\<lambda>j i. Fin 3), b1 = (\<lambda>j. Fin 0), w2 = (\<lambda>j i. Fin 1), b2 = (\<lambda>j. Fin 0)\<rparr>"

definition example_library :: "(unit, unit, unit) library" where
  "example_library =
     \<lparr>lazy_init = (\<lambda>g. ()),
      encoder_forward = (\<lambda>e g. Inr [''user'' \<mapsto> [[Fin 1]], ''movie'' \<mapsto> [[Fin 1]]]),
      backward_and_step = (\<lambda>rate m e d data weight. (m, e, d)),
      no_moments = ()\<rparr>"

definition example_data :: "unit hetero_data" where
  "example_data = \<lparr>graph = (), edge_label_index = ([0], [0]), edge_label = [5]\<rparr>"

definition example_splits :: "unit splits" where
  "example_splits =
     \<lparr>train_data = example_data, val_data = example_data, test_data = example_data\<rparr>"

definition example_session :: "(unit, unit) session" where
  "example_session =
     \<lparr>encoder = Materialized (), decoder = EdgeDecoder 1 example_init, training = True,
      grad_enabled = True, optimizer = Some \<lparr>lr = 1 / 100, moments = ()\<rparr>, trace = [],
      stdout = []\<rparr>"

section \<open>Properties of the weighted loss\<close>

lemma tf_mul_one_left: "tf_mul (Fin 1) x = x"
  by (cases x) (simp_all add: signed_inf_def)

lemma index1_in_range: "0 \<le> k \<Longrightarrow> k < int (length w) \<Longrightarrow> index1 w k = Inr (w ! nat k)"
  by (simp add: index1_def Let_def)

lemma index_select_in_range:
  "labels_in_range idx (length w) \<Longrightarrow> index_select w idx = Inr (map (\<lambda>k. w ! nat k) idx)"
  by (induction idx) (simp_all add: labels_in_range_def index1_in_range)

lemma broadcast2_same: "length xs = length ys \<Longrightarrow> broadcast2 f xs ys = Inr (map2 f xs ys)"
  by (simp add: broadcast2_def)

lemma length_to_float: "length (to_float t) = length t"
  by (simp add: to_float_def)

lemma nth_to_float: "i < length t \<Longrightarrow> to_float t ! i = Fin (real_of_int (t ! i))"
  by (simp add: to_float_def)

lemma weighted_default_is_mse:
  "weighted_mse_loss pred target None = mse_loss pred (to_float target)"
  by (simp add: weighted_mse_loss_def mse_loss_def tf_mul_one_left split: sum.splits)

lemma weighted_none_spec:
  assumes "length pred = length target"
  shows "weighted_mse_loss pred target None = Inr (spec_weighted_mse pred target None)"
proof -
  have len: "length pred = length (to_float target)"
    using assms by (simp add: length_to_float)
  have eq: "map (\<lambda>x. tf_mul (Fin 1) (tf_pow2 x)) (map2 tf_sub pred (to_float target)) =
        map (\<lambda>i. tf_mul (Fin 1) (tf_pow2 (tf_sub (pred ! i) (Fin (real_of_int (target ! i))))))
          [0..<length pred]"
    using assms by (intro nth_equalityI) (simp_all add: length_to_float nth_to_float)
  have "weighted_mse_loss pred target None =
        Inr (mean (map (\<lambda>x. tf_mul (Fin 1) (tf_pow2 x)) (map2 tf_sub pred (to_float target))))"
    by (simp add: weighted_mse_loss_def broadcast2_same [OF len])
  also have "\<dots> = Inr (spec_weighted_mse pred target None)"
    unfolding eq by (simp add: spec_weighted_mse_def spec_label_weight_def mean_def tf_sum_def)
  finally show ?thesis .
qed

lemma weighted_some_spec:
  assumes "length pred = length target" and "labels_in_range target (length w)"
  shows "weighted_mse_loss pred target (Some w) = Inr (spec_weighted_mse pred target (Some w))"
proof -
  have len: "length pred = length (to_float target)"
    using assms by (simp add: length_to_float)
  let ?wt = "map (\<lambda>k. w ! nat k) target"
  let ?d = "map2 tf_sub pred (to_float target)"
  have len2: "length ?wt = length (map tf_pow2 ?d)"
    using assms by (simp add: length_to_float)
  have eq: "map2 tf_mul ?wt (map tf_pow2 ?d) =
        map (\<lambda>i. tf_mul (w ! nat (target ! i))
                   (tf_pow2 (tf_sub (pred ! i) (Fin (real_of_int (target ! i))))))
          [0..<length pred]"
    using assms by (intro nth_equalityI) (simp_all add: length_to_float nth_to_float)
  have "weighted_mse_loss pred target (Some w) = Inr (mean (map2 tf_mul ?wt (map tf_pow2 ?d)))"
    unfolding weighted_mse_loss_def
    by (simp only: option.case index_select_in_range [OF assms(2)] sum.case
        broadcast2_same [OF len] broadcast2_same [OF len2])
  also have "\<dots> = Inr (spec_weighted_mse pred target (Some w))"
    unfolding eq by (simp add: spec_weighted_mse_def spec_label_weight_def mean_def tf_sum_def)
  finally show ?thesis .
qed

text \<open>
  C1. For a prediction vector and an integer target vector of the same length, and an
  optional weight vector that has an entry for every label of the target,
  \<open>weighted_mse_loss\<close> returns the mean over the edges of
  \<open>weight[target] * (pred - target)^2\<close>, the weight being 1 for every label when no
  vector is given. In that default case the result is \<open>mse_loss\<close> of the predictions
  against the float-cast target, for any pair of vectors (also where both raise).
\<close>

theorem weighted_mse_loss_mean:
  "(length pred = length target \<and> (\<forall>w. weight = Some w \<longrightarrow> labels_in_range target (length w))
      \<longrightarrow> weighted_mse_loss pred target weight = Inr (spec_weighted_mse pred target weight)) \<and>
   weighted_mse_loss pred target None = mse_loss pred (to_float target)"
proof (intro conjI impI)
  assume h: "length pred = length target \<and>
    (\<forall>w. weight = Some w \<longrightarrow> labels_in_range target (length w))"
  show "weighted_mse_loss pred target weight = Inr (spec_weighted_mse pred target weight)"
  proof (cases weight)
    case None
    with h show ?thesis by (simp add: weighted_none_spec)
  next
    case (Some w)
    with h show ?thesis by (simp add: weighted_some_spec)
  qed
next
  show "weighted_mse_loss pred target None = mse_loss pred (to_float target)"
    by (rule weighted_default_is_mse)
qed

theorem weighted_mse_loss_mean_witness:
  "length [Fin 3, Fin 1] = length [1, 2 :: int] \<and>
   labels_in_range [1, 2] (length [Fin 1, Fin 2, Fin 4]) \<and>
   weighted_mse_loss [Fin 3, Fin 1] [1, 2] (Some [Fin 1, Fin 2, Fin 4]) = Inr (Fin 6) \<and>
   weighted_mse_loss [Fin 3, Fin 1] [1, 2] None = Inr (Fin (5 / 2)) \<and>
   mse_loss [Fin 3, Fin 1] (to_float [1, 2]) = Inr (Fin (5 / 2))"
  using weighted_mse_loss_mean [of "[Fin 3, Fin 1]" "[1, 2]" "Some [Fin 1, Fin 2, Fin 4]"]
    weighted_mse_loss_mean [of "[Fin 3, Fin 1]" "[1, 2]" None]
  by (auto simp: labels_in_range_def spec_weighted_mse_def spec_label_weight_def tf_sub_def
      tf_pow2_def)

section \<open>Properties of the loss weight vector\<close>

lemma bincount_ok:
  assumes "\<not> list_ex (\<lambda>k. k < 0) t" and "t \<noteq> []"
  shows "bincount t = Inr (map (\<lambda>v. count_list t (int v)) [0..<Suc (nat (Max (set t)))])"
  using assms by (simp add: bincount_def)

lemma count_list_pos: "x \<in> set xs \<Longrightarrow> 0 < count_list xs x"
  by (induction xs) auto

lemma count_list_zero: "x \<notin> set xs \<Longrightarrow> count_list xs x = 0"
  by (induction xs) auto

lemma bincount_Max_pos:
  assumes "\<not> list_ex (\<lambda>k. k < 0) t" and "t \<noteq> []" and "bincount t = Inr cnt"
  shows "cnt \<noteq> [] \<and> 0 < Max (set cnt)"
proof -
  let ?M = "Max (set t)"
  have M: "?M \<in> set t" using assms(2) by (simp add: Max_in)
  have nonneg: "0 \<le> ?M" using assms(1) M by (auto simp: list_ex_iff)
  have cnt: "cnt = map (\<lambda>v. count_list t (int v)) [0..<Suc (nat ?M)]"
    using assms bincount_ok by simp
  have "count_list t ?M \<in> set cnt"
  proof -
    have "nat ?M \<in> set [0..<Suc (nat ?M)]" by simp
    then have "count_list t (int (nat ?M)) \<in> set cnt"
      unfolding cnt by (simp only: set_map image_eqI)
    then show ?thesis using nonneg by simp
  qed
  moreover have "0 < count_list t ?M" using M by (rule count_list_pos)
  ultimately have "0 < Max (set cnt)"
    by (meson List.finite_set Max_ge less_le_trans)
  then show ?thesis using cnt by simp
qed

lemma label_weight_ok:
  assumes "\<not> list_ex (\<lambda>k. k < 0) t" and "t \<noteq> []" and "bincount t = Inr cnt"
  shows "label_weight t =
     Inr (map (\<lambda>c. tf_div (Fin (real (Max (set cnt)))) (Fin (real c))) cnt)"
  using bincount_Max_pos [OF assms] assms(3)
  by (simp add: label_weight_def tensor_max_def)

lemma weight_of_count:
  fixes m c :: nat
  assumes "0 < m" and "c \<le> m"
  shows "(c = m \<longrightarrow> tf_div (Fin (real m)) (Fin (real c)) = Fin 1) \<and>
         (c < m \<longrightarrow> tf_less (Fin 1) (tf_div (Fin (real m)) (Fin (real c)))) \<and>
         (c = 0 \<longrightarrow> tf_div (Fin (real m)) (Fin (real c)) = PInf)"
  using assms by (auto simp: signed_inf_def)

text \<open>
  C2. The weight vector is the largest count divided by every count of the bincount
  of the training labels, with no guard: when a rating value \<open>v\<close> up to the largest
  training label never appears among the training labels, its bin counts 0 and the
  division for that bin is a division by zero. It raises nothing: the weight of the bin
  is the positive infinity.
\<close>

theorem label_weight_division_by_zero:
  assumes "labels \<noteq> []" and "\<not> list_ex (\<lambda>k. k < 0) labels"
    and "0 \<le> v" and "v \<le> Max (set labels)" and "v \<notin> set labels"
  shows "\<exists>cnt m w. bincount labels = Inr cnt \<and> tensor_max cnt = Inr m \<and>
           label_weight labels = Inr w \<and> nat v < length cnt \<and> length w = length cnt \<and>
           cnt ! nat v = 0 \<and> w ! nat v = tf_div (Fin (real m)) (Fin (real (cnt ! nat v))) \<and>
           w ! nat v = PInf"
proof -
  let ?cnt = "map (\<lambda>u. count_list labels (int u)) [0..<Suc (nat (Max (set labels)))]"
  let ?m = "Max (set ?cnt)"
  let ?w = "map (\<lambda>c. tf_div (Fin (real ?m)) (Fin (real c))) ?cnt"
  have b: "bincount labels = Inr ?cnt"
    using assms(1,2) by (simp add: bincount_ok)
  have pos: "?cnt \<noteq> [] \<and> 0 < ?m"
    using bincount_Max_pos [OF assms(2) assms(1) b] .
  have tm: "tensor_max ?cnt = Inr ?m"
    using pos by (simp add: tensor_max_def)
  have lw: "label_weight labels = Inr ?w"
    using label_weight_ok [OF assms(2) assms(1) b] .
  have len: "nat v < length ?cnt"
    using assms(3,4) by simp
  have zero: "?cnt ! nat v = 0"
  proof -
    have "?cnt ! nat v = count_list labels (int (nat v))"
      using len by (simp del: upt_Suc)
    then show ?thesis using assms(3,5) by (simp add: count_list_zero)
  qed
  have wv: "?w ! nat v = tf_div (Fin (real ?m)) (Fin (real (?cnt ! nat v)))"
    using len by (simp del: upt_Suc)
  have inf: "?w ! nat v = PInf"
    unfolding wv zero using pos by (simp add: signed_inf_def)
  show ?thesis
    using b tm lw len zero wv inf by (intro exI [of _ ?cnt] exI [of _ ?m] exI [of _ ?w]) simp
qed

theorem label_weight_division_by_zero_witness:
  "\<exists>cnt m w. bincount [0, 0, 2] = Inr cnt \<and> tensor_max cnt = Inr m \<and>
     label_weight [0, 0, 2] = Inr w \<and> nat 1 < length cnt \<and> length w = length cnt \<and>
     cnt ! nat 1 = 0 \<and> w ! nat 1 = tf_div (Fin (real m)) (Fin (real (cnt ! nat 1))) \<and>
     w ! nat 1 = PInf"
  by (rule label_weight_division_by_zero) simp_all

text \<open>
  C3. For a vector of labels (non-negative integers) that is not empty, so that some bin
  has a nonzero count, the weight vector has one entry per bin; the weight of a most
  frequent bin is 1 (so it is at least 1), and the weight of every strictly less
  frequent bin is greater than 1 (it is the positive infinity for a bin that counts 0).
\<close>

theorem label_weight_at_least_one:
  assumes "labels \<noteq> []" and "\<not> list_ex (\<lambda>k. k < 0) labels"
  shows "\<exists>cnt w. bincount labels = Inr cnt \<and> label_weight labels = Inr w \<and>
           length w = length cnt \<and>
           (\<forall>i<length cnt.
              (cnt ! i = Max (set cnt) \<longrightarrow> w ! i = Fin 1 \<and> tf_le (Fin 1) (w ! i)) \<and>
              (cnt ! i < Max (set cnt) \<longrightarrow> tf_less (Fin 1) (w ! i)))"
proof -
  let ?cnt = "map (\<lambda>u. count_list labels (int u)) [0..<Suc (nat (Max (set labels)))]"
  let ?m = "Max (set ?cnt)"
  let ?w = "map (\<lambda>c. tf_div (Fin (real ?m)) (Fin (real c))) ?cnt"
  have b: "bincount labels = Inr ?cnt"
    using assms by (simp add: bincount_ok)
  have pos: "?cnt \<noteq> [] \<and> 0 < ?m"
    using bincount_Max_pos [OF assms(2) assms(1) b] .
  have lw: "label_weight labels = Inr ?w"
    using label_weight_ok [OF assms(2) assms(1) b] .
  have each: "(?cnt ! i = ?m \<longrightarrow> ?w ! i = Fin 1 \<and> tf_le (Fin 1) (?w ! i)) \<and>
              (?cnt ! i < ?m \<longrightarrow> tf_less (Fin 1) (?w ! i))" if i: "i < length ?cnt" for i
  proof -
    have le: "?cnt ! i \<le> ?m"
      using i by (intro Max_ge) (simp_all only: List.finite_set nth_mem)
    have wi: "?w ! i = tf_div (Fin (real ?m)) (Fin (real (?cnt ! i)))"
      using i by (simp only: nth_map)
    show ?thesis
      unfolding wi using weight_of_count [OF conjunct2 [OF pos] le] by auto
  qed
  show ?thesis
    using b lw each by (intro exI [of _ ?cnt] exI [of _ ?w]) simp
qed

theorem label_weight_at_least_one_witness:
  "label_weight [3, 3, 4, 1] = Inr [PInf, Fin 2, PInf, Fin 1, Fin 2] \<and>
   (\<exists>cnt w. bincount [3, 3, 4, 1] = Inr cnt \<and> label_weight [3, 3, 4, 1] = Inr w \<and>
     length w = length cnt \<and>
     (\<forall>i<length cnt.
        (cnt ! i = Max (set cnt) \<longrightarrow> w ! i = Fin 1 \<and> tf_le (Fin 1) (w ! i)) \<and>
        (cnt ! i < Max (set cnt) \<longrightarrow> tf_less (Fin 1) (w ! i))))"
proof
  show "label_weight [3, 3, 4, 1] = Inr [PInf, Fin 2, PInf, Fin 1, Fin 2]"
    by (simp add: label_weight_def bincount_def tensor_max_def upt_rec signed_inf_def)
next
  show "\<exists>cnt w. bincount [3, 3, 4, 1] = Inr cnt \<and> label_weight [3, 3, 4, 1] = Inr w \<and>
     length w = length cnt \<and>
     (\<forall>i<length cnt.
        (cnt ! i = Max (set cnt) \<longrightarrow> w ! i = Fin 1 \<and> tf_le (Fin 1) (w ! i)) \<and>
        (cnt ! i < Max (set cnt) \<longrightarrow> tf_less (Fin 1) (w ! i)))"
    by (rule label_weight_at_least_one) simp_all
qed

text \<open>
  The weight of a label that does appear among the training labels is finite and at
  least 1: the loss of the training step, which indexes the weight vector by the
  training labels only, never reads the infinite weight of an empty bin.
\<close>

lemma label_weight_of_seen_label:
  assumes "\<not> list_ex (\<lambda>k. k < 0) labels" and "k \<in> set labels"
  shows "\<exists>w a. label_weight labels = Inr w \<and> index1 w k = Inr (Fin a) \<and> 1 \<le> a"
proof -
  have ne: "labels \<noteq> []" using assms(2) by auto
  let ?cnt = "map (\<lambda>u. count_list labels (int u)) [0..<Suc (nat (Max (set labels)))]"
  let ?m = "Max (set ?cnt)"
  let ?w = "map (\<lambda>c. tf_div (Fin (real ?m)) (Fin (real c))) ?cnt"
  have b: "bincount labels = Inr ?cnt"
    using assms(1) ne by (simp add: bincount_ok)
  have lw: "label_weight labels = Inr ?w"
    using label_weight_ok [OF assms(1) ne b] .
  have k0: "0 \<le> k" using assms by (auto simp: list_ex_iff)
  have kM: "k \<le> Max (set labels)" using assms(2) by simp
  have len: "nat k < length ?cnt" using k0 kM by simp
  have ck: "?cnt ! nat k = count_list labels k"
    using len k0 by (simp del: upt_Suc)
  have pos: "0 < ?cnt ! nat k"
    unfolding ck using assms(2) by (rule count_list_pos)
  have le: "?cnt ! nat k \<le> ?m"
    using len by (intro Max_ge) (simp_all only: List.finite_set nth_mem)
  have wk: "?w ! nat k = Fin (real ?m / real (?cnt ! nat k))"
    using len pos by (simp del: upt_Suc)
  have ge: "1 \<le> real ?m / real (?cnt ! nat k)"
    using pos le by simp
  have "k < int (length ?w)"
    using k0 kM by simp
  then have "index1 ?w k = Inr (?w ! nat k)"
    using k0 by (intro index1_in_range)
  then show ?thesis using lw wk ge by (intro exI [of _ ?w]) simp
qed

section \<open>Properties of the link-level split\<close>

lemma random_link_split_parts:
  assumes "random_link_split 10 10 perm = (tr, va, te)"
  shows "tr @ va @ te = perm \<and> length va = length perm div 10 \<and> length te = length perm div 10
         \<and> length tr = length perm - length perm div 10 - length perm div 10"
proof -
  let ?n = "length perm"
  let ?k = "?n div 10"
  let ?t = "?n - ?k - ?k"
  have tr: "tr = take ?t perm" and va: "va = take ?k (drop ?t perm)"
    and te: "te = drop (?t + ?k) perm"
    using assms by (simp_all add: random_link_split_def Let_def)
  have cat: "tr @ va @ te = perm"
    unfolding tr va te by (metis append_take_drop_id drop_drop add.commute)
  have k: "?k + ?k \<le> ?n" by arith
  have lva: "length va = ?k" unfolding va using k by simp
  have lte: "length te = ?k" unfolding te using k by simp
  have ltr: "length tr = ?t" unfolding tr by simp
  show ?thesis using cat lva lte ltr by simp
qed

text \<open>
  C4. When the positions of the labelled edges of the relation are drawn in a random
  order without repetition, the training, validation and test splits are pairwise
  disjoint, together they are all the edges, and their sizes sum to the number of
  labelled edges. The validation and the test split each hold a tenth of the edges
  rounded down, and the training split holds the rest: between 80 percent of the edges
  and 80 percent plus two edges.
\<close>

theorem script_split_partition:
  assumes "distinct perm" and "set perm = {0..<n}"
    and "script_split perm = (tr, va, te)"
  shows "set tr \<inter> set va = {} \<and> set tr \<inter> set te = {} \<and> set va \<inter> set te = {} \<and>
         set tr \<union> set va \<union> set te = {0..<n} \<and>
         distinct tr \<and> distinct va \<and> distinct te \<and>
         length tr + length va + length te = n \<and>
         length va = n div 10 \<and> length te = n div 10 \<and> length tr = n - 2 * (n div 10) \<and>
         10 * length va \<le> n \<and> n < 10 * length va + 10 \<and>
         10 * length te \<le> n \<and> n < 10 * length te + 10 \<and>
         8 * n \<le> 10 * length tr \<and> 10 * length tr < 8 * n + 20"
proof -
  have n: "length perm = n"
    using assms(1,2) distinct_card by fastforce
  have parts: "tr @ va @ te = perm \<and> length va = n div 10 \<and> length te = n div 10
      \<and> length tr = n - n div 10 - n div 10"
    using random_link_split_parts [of perm tr va te] assms(3) n by (simp add: script_split_def)
  have d: "distinct (tr @ va @ te)" using parts assms(1) by simp
  have s: "set (tr @ va @ te) = {0..<n}" using parts assms(2) by simp
  have disj: "set tr \<inter> set va = {} \<and> set tr \<inter> set te = {} \<and> set va \<inter> set te = {}"
    using d by auto
  have dist: "distinct tr \<and> distinct va \<and> distinct te" using d by simp
  have un: "set tr \<union> set va \<union> set te = {0..<n}" using s by auto
  have ar: "length tr + length va + length te = n \<and> length tr = n - 2 * (n div 10) \<and>
         10 * length va \<le> n \<and> n < 10 * length va + 10 \<and>
         10 * length te \<le> n \<and> n < 10 * length te + 10 \<and>
         8 * n \<le> 10 * length tr \<and> 10 * length tr < 8 * n + 20"
    using parts by (simp only:) arith
  show ?thesis using disj dist un ar parts by simp
qed

theorem script_split_partition_witness:
  "script_split [3, 1, 4, 0, 2, 9, 5, 8, 7, 6, 10, 11] =
     ([3, 1, 4, 0, 2, 9, 5, 8, 7, 6], [10], [11]) \<and>
   set [3, 1, 4, 0, 2, 9, 5, 8, 7, 6 :: nat] \<inter> set [10] = {} \<and>
   length [3, 1, 4, 0, 2, 9, 5, 8, 7, 6 :: nat] + length [10 :: nat] + length [11 :: nat] = 12"
proof -
  have d: "distinct [3, 1, 4, 0, 2, 9, 5, 8, 7, 6, 10, 11 :: nat]" by simp
  have s: "set [3, 1, 4, 0, 2, 9, 5, 8, 7, 6, 10, 11 :: nat] = {0..<12}"
    by (auto simp: atLeastLessThan_upt upt_rec)
  have e: "script_split [3, 1, 4, 0, 2, 9, 5, 8, 7, 6, 10, 11] =
     ([3, 1, 4, 0, 2, 9, 5, 8, 7, 6], [10], [11])"
    by (simp add: script_split_def random_link_split_def)
  show ?thesis using script_split_partition [OF d s e] e by simp
qed

section \<open>Properties of the clamping\<close>

lemma clamp_elem_cases:
  "(x = NaN \<longrightarrow> clamp_elem 0 5 x = NaN) \<and> (x \<noteq> NaN \<longrightarrow> in_rating_range (clamp_elem 0 5 x))"
  by (cases x) (simp_all add: clamp_elem_def in_rating_range_def Let_def)

text \<open>
  C5, as amended. Clamping to \<open>[0, 5]\<close> keeps the length of the prediction tensor;
  every element of the clamped tensor whose prediction is not NaN satisfies
  \<open>0 \<le> value \<le> 5\<close> (an infinite prediction becomes 0 or 5), and a NaN prediction
  stays NaN.
\<close>

theorem clamp_in_rating_range:
  "length (clamp 0 5 pred) = length pred \<and>
   (\<forall>i<length pred.
      (pred ! i = NaN \<longrightarrow> clamp 0 5 pred ! i = NaN) \<and>
      (pred ! i \<noteq> NaN \<longrightarrow> in_rating_range (clamp 0 5 pred ! i)))"
  using clamp_elem_cases by (simp add: clamp_def)

theorem clamp_in_rating_range_witness:
  "clamp 0 5 [Fin 7, Fin (- 2), Fin 3, PInf, NInf, NaN] = [Fin 5, Fin 0, Fin 3, Fin 5, Fin 0, NaN] \<and>
   in_rating_range (clamp 0 5 [Fin 7, Fin (- 2), Fin 3, PInf, NInf, NaN] ! 0)"
  using clamp_in_rating_range [of "[Fin 7, Fin (- 2), Fin 3, PInf, NInf, NaN]"]
  by (simp add: clamp_def clamp_elem_def in_rating_range_def)

text \<open>
  The claim as stated, for any prediction tensor, fails on a NaN prediction: it stays NaN,
  and NaN satisfies neither bound.
\<close>

theorem clamp_NaN_counterexample:
  "clamp 0 5 [NaN] = [NaN] \<and> \<not> in_rating_range (clamp 0 5 [NaN] ! 0)"
  by (simp add: clamp_def clamp_elem_def in_rating_range_def)

section \<open>Properties of the decoder\<close>

lemma concat_singletons: "list_all (\<lambda>r. length r = 1) xs \<Longrightarrow> concat xs = map hd xs"
proof (induction xs)
  case Nil
  then show ?case by simp
next
  case (Cons r xs)
  then obtain x where "r = [x]" by (cases r) auto
  with Cons show ?case by simp
qed

lemma length_linear_row:
  "wf_linear n_in n_out l \<Longrightarrow> length (linear_row l r) = n_out"
  by (simp add: wf_linear_def linear_row_def)

lemma linear_forward_ok:
  assumes "wf_linear n_in n_out l" and "list_all (\<lambda>r. length r = n_in) x"
  shows "linear_forward l x = Inr (map (linear_row l) x)"
  using assms by (simp add: linear_forward_def wf_linear_def)

lemma cat_last_ok: "length a = length b \<Longrightarrow> cat_last a b = Inr (map2 (@) a b)"
  by (simp add: cat_last_def)

lemma gathered_rows:
  assumes "wf_latent h z idx"
  shows "index_select z idx = Inr (map (\<lambda>k. z ! nat k) idx) \<and>
         list_all (\<lambda>r. length r = h) (map (\<lambda>k. z ! nat k) idx)"
proof -
  have sel: "index_select z idx = Inr (map (\<lambda>k. z ! nat k) idx)"
    using assms by (simp add: wf_latent_def index_select_in_range)
  have "length (z ! nat k) = h" if "k \<in> set idx" for k
  proof -
    have "0 \<le> k \<and> k < int (length z)"
      using assms that by (auto simp: wf_latent_def labels_in_range_def list_all_iff)
    then have "z ! nat k \<in> set z" by (intro nth_mem) linarith
    then show ?thesis using assms by (auto simp: wf_latent_def list_all_iff)
  qed
  then show ?thesis using sel by (simp add: list_all_iff)
qed

lemma decoder_forward_value:
  assumes wf: "wf_decoder h dec"
    and zu: "z_dict ''user'' = Some zu" and zm: "z_dict ''movie'' = Some zm"
    and lu: "wf_latent h zu row" and lm: "wf_latent h zm col"
    and len: "length row = length col"
  shows "decoder_forward dec z_dict (row, col) =
           Inr (map (\<lambda>i. spec_score dec (zu ! nat (row ! i)) (zm ! nat (col ! i)))
                  [0..<length row])"
proof -
  let ?a = "map (\<lambda>k. zu ! nat k) row"
  let ?b = "map (\<lambda>k. zm ! nat k) col"
  let ?z = "map2 (@) ?a ?b"
  let ?h = "map (linear_row (lin1 dec)) ?z"
  let ?o = "map (linear_row (lin2 dec)) (relu ?h)"
  have w1: "wf_linear (2 * h) h (lin1 dec)" and w2: "wf_linear h 1 (lin2 dec)"
    using wf by (simp_all add: wf_decoder_def)
  have a: "index_select zu row = Inr ?a" and ra: "list_all (\<lambda>r. length r = h) ?a"
    using gathered_rows [OF lu] by simp_all
  have b: "index_select zm col = Inr ?b" and rb: "list_all (\<lambda>r. length r = h) ?b"
    using gathered_rows [OF lm] by simp_all
  have c: "cat_last ?a ?b = Inr ?z"
    using len by (simp add: cat_last_ok)
  have rz: "list_all (\<lambda>r. length r = 2 * h) ?z"
    using ra rb by (auto simp: list_all_iff dest!: set_zip_leftD set_zip_rightD elim!: in_set_zipE)
  have l1: "linear_forward (lin1 dec) ?z = Inr ?h"
    using linear_forward_ok [OF w1 rz] .
  have rh: "list_all (\<lambda>r. length r = h) (relu ?h)"
    using length_linear_row [OF w1] by (simp add: relu_def list_all_iff)
  have l2: "linear_forward (lin2 dec) (relu ?h) = Inr ?o"
    using linear_forward_ok [OF w2 rh] .
  have ro: "list_all (\<lambda>r. length r = 1) ?o"
    using length_linear_row [OF w2] by (simp add: list_all_iff)
  have run: "decoder_forward dec z_dict (row, col) = Inr (concat ?o)"
    unfolding decoder_forward_def lookup_def
    by (simp only: prod.case zu zm option.case sum.case a b c l1 l2)
  have "concat ?o = map hd ?o"
    using concat_singletons [OF ro] .
  also have "\<dots> = map (\<lambda>i. spec_score dec (zu ! nat (row ! i)) (zm ! nat (col ! i)))
                  [0..<length row]"
    using len by (intro nth_equalityI) (simp_all add: relu_def spec_score_def)
  finally show ?thesis using run by simp
qed

text \<open>
  C9. For a decoder of \<open>h\<close> hidden channels, latent matrices for the users and the movies
  with rows of length \<open>h\<close>, and two endpoint index sequences of the same length \<open>n\<close>
  that name rows of these matrices, the decoder returns a flat tensor of length \<open>n\<close>:
  its \<open>i\<close>-th element is the score of the \<open>i\<close>-th pair, which is the single output of the
  second linear layer on the non-linearity of the first linear layer on the user's latent
  vector concatenated with the movie's.
\<close>

theorem decoder_forward_scores:
  assumes "wf_decoder h dec"
    and "z_dict ''user'' = Some zu" and "z_dict ''movie'' = Some zm"
    and "wf_latent h zu row" and "wf_latent h zm col"
    and "length row = length col"
  shows "\<exists>out. decoder_forward dec z_dict (row, col) = Inr out \<and> length out = length row \<and>
           (\<forall>i<length row. out ! i = spec_score dec (zu ! nat (row ! i)) (zm ! nat (col ! i)))"
  using decoder_forward_value [OF assms] by simp

lemma wf_Linear: "wf_linear n_in n_out (Linear n_in n_out w0 b0)"
  by (simp add: wf_linear_def Linear_def list_all_iff)

lemma wf_EdgeDecoder: "wf_decoder h (EdgeDecoder h iv)"
  by (simp add: wf_decoder_def EdgeDecoder_def wf_Linear)

theorem decoder_forward_scores_witness:
  "wf_decoder 1 (EdgeDecoder 1 example_init) \<and>
   wf_latent 1 [[Fin 1], [Fin (- 1)]] [0, 1] \<and> wf_latent 1 [[Fin 1]] [0, 0] \<and>
   decoder_forward (EdgeDecoder 1 example_init)
     [''user'' \<mapsto> [[Fin 1], [Fin (- 1)]], ''movie'' \<mapsto> [[Fin 1]]] ([0, 1], [0, 0]) =
     Inr [Fin 6, Fin 0] \<and>
   (\<exists>out. decoder_forward (EdgeDecoder 1 example_init)
       [''user'' \<mapsto> [[Fin 1], [Fin (- 1)]], ''movie'' \<mapsto> [[Fin 1]]] ([0, 1], [0, 0]) = Inr out \<and>
     length out = length [0, 1 :: int] \<and>
     (\<forall>i<length [0, 1 :: int].
        out ! i = spec_score (EdgeDecoder 1 example_init) ([[Fin 1], [Fin (- 1)]] ! nat ([0, 1] ! i))
                    ([[Fin 1]] ! nat ([0, 0] ! i))))"
proof -
  have wf: "wf_decoder 1 (EdgeDecoder 1 example_init)"
    by (simp add: wf_decoder_def wf_linear_def EdgeDecoder_def Linear_def example_init_def)
  have u: "[''user'' \<mapsto> [[Fin 1], [Fin (- 1)]], ''movie'' \<mapsto> [[Fin 1]]] ''user'' =
      Some [[Fin 1], [Fin (- 1)]]" by simp
  have m: "[''user'' \<mapsto> [[Fin 1], [Fin (- 1)]], ''movie'' \<mapsto> [[Fin 1]]] ''movie'' =
      Some [[Fin 1]]" by simp
  have lu: "wf_latent 1 [[Fin 1], [Fin (- 1)]] [0, 1]"
    by (simp add: wf_latent_def labels_in_range_def)
  have lm: "wf_latent 1 [[Fin 1]] [0, 0]"
    by (simp add: wf_latent_def labels_in_range_def)
  have len: "length [0, 1 :: int] = length [0, 0 :: int]" by simp
  have v: "decoder_forward (EdgeDecoder 1 example_init)
     [''user'' \<mapsto> [[Fin 1], [Fin (- 1)]], ''movie'' \<mapsto> [[Fin 1]]] ([0, 1], [0, 0]) =
     Inr [Fin 6, Fin 0]"
    by (simp add: decoder_forward_def lookup_def index1_def cat_last_def linear_forward_def
        linear_row_def dot_def tf_sum_def relu_def tf_relu_def EdgeDecoder_def Linear_def example_init_def
        upt_rec)
  show ?thesis
    using decoder_forward_scores [OF wf u m lu lm len] wf lu lm v by blast
qed

section \<open>Properties of the evaluation function\<close>

lemma encoder_call_materialized:
  assumes "encoder s = Materialized e" and "encoder_call L s g = Inr (z, s1)"
  shows "encoder_forward L e g = Inr z \<and>
         s1 = s\<lparr>trace := trace s @ [EncoderForward (grad_enabled s)]\<rparr>"
  using assms by (auto simp: encoder_call_def Let_def split: sum.splits)

lemma model_forward_materialized:
  assumes "encoder s = Materialized e" and "model_forward L s g eli = Inr (pred, s1)"
  shows "\<exists>z. encoder_forward L e g = Inr z \<and> decoder_forward (decoder s) z eli = Inr pred \<and>
           s1 = s\<lparr>trace := trace s @
                  [EncoderForward (grad_enabled s), DecoderForward (grad_enabled s)]\<rparr>"
proof -
  obtain z s0 where ec: "encoder_call L s g = Inr (z, s0)"
    and df: "decoder_forward (decoder s0) z eli = Inr pred"
    and s1: "s1 = s0\<lparr>trace := trace s0 @ [DecoderForward (grad_enabled s0)]\<rparr>"
    using assms(2) by (auto simp: model_forward_def split: sum.splits)
  from encoder_call_materialized [OF assms(1) ec]
  have z: "encoder_forward L e g = Inr z"
    and s0: "s0 = s\<lparr>trace := trace s @ [EncoderForward (grad_enabled s)]\<rparr>" by simp_all
  show ?thesis using z df s1 s0 by simp
qed

lemma mse_loss_spec:
  assumes "length x = length t"
  shows "mse_loss x (to_float t) = Inr (spec_weighted_mse x t None)"
  using weighted_none_spec [OF assms] by (simp add: weighted_default_is_mse)

lemma train_materializes:
  assumes "train L weight d s = Inr (l, s1)"
  shows "\<exists>e. encoder s1 = Materialized e"
  using assms
  by (auto simp: train_def Let_def split: option.splits sum.splits lazy.splits prod.splits)

lemma test_materializes:
  assumes "test L s d = Inr (r, s1)"
  shows "\<exists>e. encoder s1 = Materialized e"
  using assms
  by (auto simp: test_def model_forward_def encoder_call_def Let_def split: sum.splits)

text \<open>
  C6. When the parameters of the encoder are materialized, as they are after the script's
  initialization and after every call of \<open>train\<close> and of \<open>test\<close>, a call of \<open>test\<close> on any split that returns leaves the parameters of
  the encoder and of the decoder and the state of the optimizer as they were, prints
  nothing, and restores the gradient mode. Its one forward pass (encoder, then decoder)
  runs with gradient tracking disabled. The value returned is the square root of
  \<open>mse_loss\<close> of the predictions clamped to \<open>[0, 5]\<close> against the float-cast labels of
  the split: for predictions as many as the labels, the root of the mean of the squared
  differences, every weight being 1.
\<close>

theorem test_no_grad_frame:
  assumes "encoder s = Materialized e" and "test L s data = Inr (r, s')"
  shows "encoder s' = encoder s \<and> decoder s' = decoder s \<and> optimizer s' = optimizer s \<and>
         stdout s' = stdout s \<and> grad_enabled s' = grad_enabled s \<and>
         trace s' = trace s @ [EncoderForward False, DecoderForward False] \<and>
         (\<exists>z pred m. encoder_forward L e (graph data) = Inr z \<and>
            decoder_forward (decoder s) z (edge_label_index data) = Inr pred \<and>
            mse_loss (clamp 0 5 pred) (to_float (edge_label data)) = Inr m \<and>
            r = tf_sqrt m \<and>
            (length pred = length (edge_label data) \<longrightarrow>
               r = tf_sqrt (spec_weighted_mse (clamp 0 5 pred) (edge_label data) None)))"
proof -
  let ?s2 = "s\<lparr>grad_enabled := False, training := False\<rparr>"
  obtain pred s3 m where mf: "model_forward L ?s2 (graph data) (edge_label_index data) = Inr (pred, s3)"
    and m: "mse_loss (clamp 0 5 pred) (to_float (edge_label data)) = Inr m"
    and r: "r = tf_sqrt m" and s': "s' = s3\<lparr>grad_enabled := grad_enabled s\<rparr>"
    using assms(2) by (auto simp: test_def Let_def split: sum.splits)
  have e2: "encoder ?s2 = Materialized e" using assms(1) by simp
  from model_forward_materialized [OF e2 mf]
  obtain z where z: "encoder_forward L e (graph data) = Inr z"
    and d: "decoder_forward (decoder s) z (edge_label_index data) = Inr pred"
    and s3: "s3 = ?s2\<lparr>trace := trace ?s2 @ [EncoderForward False, DecoderForward False]\<rparr>"
    by auto
  have sp: "r = tf_sqrt (spec_weighted_mse (clamp 0 5 pred) (edge_label data) None)"
    if "length pred = length (edge_label data)"
  proof -
    have "length (clamp 0 5 pred) = length (edge_label data)"
      using that by (simp add: clamp_def)
    from mse_loss_spec [OF this] m r show ?thesis by simp
  qed
  have frame: "encoder s' = encoder s \<and> decoder s' = decoder s \<and> optimizer s' = optimizer s \<and>
         stdout s' = stdout s \<and> grad_enabled s' = grad_enabled s \<and>
         trace s' = trace s @ [EncoderForward False, DecoderForward False]"
    unfolding s' s3 by simp
  show ?thesis using frame z d m r sp by blast
qed



lemma example_forward:
  assumes "encoder s = Materialized ()" and "decoder s = EdgeDecoder 1 example_init"
  shows "model_forward example_library s (graph example_data) (edge_label_index example_data) =
     Inr ([Fin 6], s\<lparr>trace := trace s @
                        [EncoderForward (grad_enabled s), DecoderForward (grad_enabled s)]\<rparr>)"
proof -
  have d: "decoder_forward (EdgeDecoder 1 example_init)
      [''user'' \<mapsto> [[Fin 1]], ''movie'' \<mapsto> [[Fin 1]]] ([0], [0]) = Inr [Fin 6]"
    by (simp add: decoder_forward_def lookup_def index1_def cat_last_def linear_forward_def
        linear_row_def dot_def tf_sum_def relu_def tf_relu_def EdgeDecoder_def Linear_def
        example_init_def upt_rec)
  have u: "s\<lparr>encoder := Materialized ()\<rparr> = s"
    using assms(1) by (cases s) simp
  show ?thesis
    using assms d u
    by (simp add: model_forward_def encoder_call_def example_library_def example_data_def)
qed

lemma example_test:
  assumes "encoder s = Materialized ()" and "decoder s = EdgeDecoder 1 example_init"
  shows "test example_library s example_data =
     Inr (Fin 0, s\<lparr>training := False,
                    trace := trace s @ [EncoderForward False, DecoderForward False]\<rparr>)"
proof -
  let ?s2 = "s\<lparr>grad_enabled := False, training := False\<rparr>"
  have f: "model_forward example_library ?s2 (graph example_data) (edge_label_index example_data) =
     Inr ([Fin 6], ?s2\<lparr>trace := trace ?s2 @ [EncoderForward False, DecoderForward False]\<rparr>)"
    using example_forward [of ?s2] assms by simp
  have m: "mse_loss (clamp 0 5 [Fin 6]) (to_float (edge_label example_data)) = Inr (Fin 0)"
    by (simp add: mse_loss_def clamp_def clamp_elem_def to_float_def example_data_def
        broadcast2_def tf_sub_def tf_pow2_def mean_def tf_sum_def)
  have r: "s\<lparr>grad_enabled := False, training := False,
            trace := trace s @ [EncoderForward False, DecoderForward False],
            grad_enabled := grad_enabled s\<rparr> =
          s\<lparr>training := False, trace := trace s @ [EncoderForward False, DecoderForward False]\<rparr>"
    by (cases s) simp
  show ?thesis
    unfolding test_def Let_def using f m r by simp
qed

lemma example_train:
  assumes "encoder s = Materialized ()" and "decoder s = EdgeDecoder 1 example_init"
    and "optimizer s = Some opt"
  shows "\<exists>s1. train example_library None example_data s = Inr (Fin 1, s1) \<and>
           encoder s1 = Materialized () \<and> decoder s1 = EdgeDecoder 1 example_init \<and>
           optimizer s1 = Some opt \<and> stdout s1 = stdout s"
proof -
  let ?s2 = "s\<lparr>training := True, trace := trace s @ [ZeroGrad]\<rparr>"
  have f: "model_forward example_library ?s2 (graph example_data) (edge_label_index example_data) =
     Inr ([Fin 6], ?s2\<lparr>trace := trace ?s2 @
            [EncoderForward (grad_enabled ?s2), DecoderForward (grad_enabled ?s2)]\<rparr>)"
    using example_forward [of ?s2] assms by simp
  have l: "weighted_mse_loss [Fin 6] (edge_label example_data) None = Inr (Fin 1)"
    by (simp add: weighted_mse_loss_def to_float_def example_data_def
        broadcast2_def tf_sub_def tf_pow2_def mean_def tf_sum_def)
  have b: "backward_and_step example_library r m e d data w = (m, e, d)" for r m e d data w
    by (simp add: example_library_def)
  show ?thesis
    unfolding train_def Let_def using f l assms by (simp add: b)
qed

theorem test_no_grad_frame_witness:
  "encoder example_session = Materialized () \<and>
   (\<exists>s'. test example_library example_session example_data = Inr (Fin 0, s') \<and>
      encoder s' = encoder example_session \<and> decoder s' = decoder example_session \<and>
      optimizer s' = optimizer example_session \<and>
      trace s' = trace example_session @ [EncoderForward False, DecoderForward False])"
proof -
  have e: "encoder example_session = Materialized ()"
    and d: "decoder example_session = EdgeDecoder 1 example_init"
    by (simp_all add: example_session_def)
  from example_test [OF e d] obtain s' where
    t: "test example_library example_session example_data = Inr (Fin 0, s')" by blast
  show ?thesis using test_no_grad_frame [OF e t] e t by blast
qed


section \<open>Properties of the training step\<close>

lemma train_result:
  assumes "encoder s = Materialized e" and "train L weight data s = Inr (l, s1)"
  shows "\<exists>z pred. encoder_forward L e (graph data) = Inr z \<and>
           decoder_forward (decoder s) z (edge_label_index data) = Inr pred \<and>
           weighted_mse_loss pred (edge_label data) weight = Inr l"
proof -
  let ?s2 = "s\<lparr>training := True, trace := trace s @ [ZeroGrad]\<rparr>"
  obtain pred s3 where mf: "model_forward L ?s2 (graph data) (edge_label_index data) = Inr (pred, s3)"
    and l: "weighted_mse_loss pred (edge_label data) weight = Inr l"
    using assms(2)
    by (auto simp: train_def Let_def split: option.splits sum.splits lazy.splits prod.splits)
  have e2: "encoder ?s2 = Materialized e" using assms(1) by simp
  from model_forward_materialized [OF e2 mf] l show ?thesis by auto
qed

text \<open>
  C10. The loss that \<open>train\<close> returns is \<open>weighted_mse_loss\<close> of the predictions as the
  decoder returns them: nothing clamps them. \<open>test\<close> alone clamps. In the small instance
  the prediction for the one edge is 6, outside \<open>[0, 5]\<close>, and the label is 5: the
  unweighted training loss is 1, and the training RMSE that \<open>test\<close> reports next, in the
  session the training step leaves, is 0, whose square is not 1.
\<close>

theorem train_loss_not_clamped:
  "(encoder s = Materialized e \<and> train L weight data s = Inr (l, s1) \<longrightarrow>
      (\<exists>z pred. encoder_forward L e (graph data) = Inr z \<and>
         decoder_forward (decoder s) z (edge_label_index data) = Inr pred \<and>
         weighted_mse_loss pred (edge_label data) weight = Inr l)) \<and>
   (\<exists>s0 s2 s3.
      model_forward example_library example_session (graph example_data)
        (edge_label_index example_data) = Inr ([Fin 6], s0) \<and>
      \<not> in_rating_range (Fin 6) \<and>
      train example_library None example_data example_session = Inr (Fin 1, s2) \<and>
      test example_library s2 example_data = Inr (Fin 0, s3) \<and>
      Fin 1 \<noteq> tf_mul (Fin 0) (Fin 0))"
proof (intro conjI impI)
  assume "encoder s = Materialized e \<and> train L weight data s = Inr (l, s1)"
  then have "encoder s = Materialized e" and "train L weight data s = Inr (l, s1)"
    by simp_all
  then show "\<exists>z pred. encoder_forward L e (graph data) = Inr z \<and>
         decoder_forward (decoder s) z (edge_label_index data) = Inr pred \<and>
         weighted_mse_loss pred (edge_label data) weight = Inr l"
    by (rule train_result)
next
  have e: "encoder example_session = Materialized ()"
    and d: "decoder example_session = EdgeDecoder 1 example_init"
    and o: "optimizer example_session = Some \<lparr>lr = 1 / 100, moments = ()\<rparr>"
    by (simp_all add: example_session_def)
  from example_train [OF e d o] obtain s2 where
    tr: "train example_library None example_data example_session = Inr (Fin 1, s2)"
    and e2: "encoder s2 = Materialized ()" and d2: "decoder s2 = EdgeDecoder 1 example_init"
    by blast
  have out: "\<not> in_rating_range (Fin 6)" by (simp add: in_rating_range_def)
  have ne: "Fin 1 \<noteq> tf_mul (Fin 0) (Fin 0)" by simp
  show "\<exists>s0 s2 s3.
      model_forward example_library example_session (graph example_data)
        (edge_label_index example_data) = Inr ([Fin 6], s0) \<and>
      \<not> in_rating_range (Fin 6) \<and>
      train example_library None example_data example_session = Inr (Fin 1, s2) \<and>
      test example_library s2 example_data = Inr (Fin 0, s3) \<and>
      Fin 1 \<noteq> tf_mul (Fin 0) (Fin 0)"
    using example_forward [OF e d] out tr example_test [OF e2 d2] ne by blast
qed

theorem train_loss_not_clamped_witness:
  "encoder example_session = Materialized () \<and>
   (\<exists>s1. train example_library None example_data example_session = Inr (Fin 1, s1)) \<and>
   (\<exists>z pred. encoder_forward example_library () (graph example_data) = Inr z \<and>
      decoder_forward (decoder example_session) z (edge_label_index example_data) = Inr pred \<and>
      weighted_mse_loss pred (edge_label example_data) None = Inr (Fin 1))"
proof -
  have e: "encoder example_session = Materialized ()"
    and d: "decoder example_session = EdgeDecoder 1 example_init"
    and o: "optimizer example_session = Some \<lparr>lr = 1 / 100, moments = ()\<rparr>"
    by (simp_all add: example_session_def)
  from example_train [OF e d o] obtain s1 where
    tr: "train example_library None example_data example_session = Inr (Fin 1, s1)" by blast
  show ?thesis
    using conjunct1 [OF train_loss_not_clamped
        [of example_session "()" example_library None example_data "Fin 1" s1]] e tr
    by blast
qed

section \<open>Properties of the initialization\<close>

text \<open>
  C8. The model is constructed with the encoder's parameters not yet materialized. When
  the initialization returns, what has happened is, in this order: the construction of
  the model, one forward pass of the encoder with gradient tracking disabled, the creation
  of the optimizer; every parameter was materialized when the optimizer was created (the
  encoder's are those the forward pass inferred from the training graph), and gradient
  tracking is enabled again. The initialization returns whenever the forward pass of the
  encoder on the training graph does.
\<close>

theorem script_init_order:
  "encoder (Model 32 iv :: ('e, 'o) session) = Uninitialized \<and>
   (script_init L iv d = Inr s \<longrightarrow>
      trace s = [ModelConstructed, EncoderForward False, OptimizerCreated True] \<and>
      encoder s = Materialized (lazy_init L (graph d)) \<and>
      decoder s = EdgeDecoder 32 iv \<and>
      optimizer s = Some \<lparr>lr = 1 / 100, moments = no_moments L\<rparr> \<and>
      grad_enabled s = True \<and> training s = True \<and> stdout s = []) \<and>
   ((\<exists>z. encoder_forward L (lazy_init L (graph d)) (graph d) = Inr z) \<longrightarrow>
      (\<exists>s. script_init L iv d = Inr s))"
  by (auto simp: script_init_def Model_def Adam_def encoder_call_def Let_def split: sum.splits)

theorem script_init_order_witness:
  "\<exists>s. script_init example_library example_init example_data = Inr s \<and>
     trace s = [ModelConstructed, EncoderForward False, OptimizerCreated True] \<and>
     encoder s = Materialized ()"
proof -
  have "\<exists>z. encoder_forward example_library (lazy_init example_library (graph example_data))
      (graph example_data) = Inr z"
    by (simp add: example_library_def)
  then obtain s where s: "script_init example_library example_init example_data = Inr s"
    using script_init_order [of example_init example_library example_data] by blast
  then show ?thesis
    using script_init_order [of example_init example_library example_data s] by auto
qed


section \<open>Properties of the epoch loop\<close>

lemma model_forward_frame:
  assumes "model_forward L s g eli = Inr (pred, s1)"
  shows "stdout s1 = stdout s \<and> optimizer s1 = optimizer s"
  using assms
  by (auto simp: model_forward_def encoder_call_def Let_def split: sum.splits)

lemma train_frame:
  assumes "train L weight d s = Inr (l, s1)"
  shows "stdout s1 = stdout s \<and> map_option lr (optimizer s1) = map_option lr (optimizer s)"
proof -
  obtain opt where o: "optimizer s = Some opt"
    using assms by (auto simp: train_def split: option.splits)
  let ?s2 = "s\<lparr>training := True, trace := trace s @ [ZeroGrad]\<rparr>"
  obtain pred s3 e m' e' d' where
    mf: "model_forward L ?s2 (graph d) (edge_label_index d) = Inr (pred, s3)"
    and s1: "s1 = s3\<lparr>encoder := Materialized e', decoder := d',
                     optimizer := Some (opt\<lparr>moments := m'\<rparr>),
                     trace := trace s3 @ [Backward, OptimizerStep]\<rparr>"
    using assms o
    by (auto simp: train_def Let_def split: sum.splits lazy.splits prod.splits)
  from model_forward_frame [OF mf] have "stdout s3 = stdout s" by simp
  then show ?thesis using s1 o by simp
qed

lemma test_frame:
  assumes "test L s d = Inr (r, s1)"
  shows "stdout s1 = stdout s \<and> optimizer s1 = optimizer s"
proof -
  let ?s2 = "s\<lparr>grad_enabled := False, training := False\<rparr>"
  obtain pred s3 where
    mf: "model_forward L ?s2 (graph d) (edge_label_index d) = Inr (pred, s3)"
    and s1: "s1 = s3\<lparr>grad_enabled := grad_enabled s\<rparr>"
    using assms by (auto simp: test_def Let_def split: sum.splits)
  from model_forward_frame [OF mf] show ?thesis using s1 by simp
qed

lemma epoch_body_line:
  assumes "epoch_body L weight ds ep s = Inr s'"
  shows "\<exists>l r1 r2 r3 s1 s2 s3 s4.
           train L weight (train_data ds) s = Inr (l, s1) \<and>
           test L s1 (train_data ds) = Inr (r1, s2) \<and>
           test L s2 (val_data ds) = Inr (r2, s3) \<and>
           test L s3 (test_data ds) = Inr (r3, s4) \<and>
           stdout s' = stdout s @
             [\<lparr>epoch = ep, loss = l, train_rmse = r1, val_rmse = r2, test_rmse = r3\<rparr>] \<and>
           map_option lr (optimizer s') = map_option lr (optimizer s)"
proof -
  obtain l r1 r2 r3 s1 s2 s3 s4 where
    t: "train L weight (train_data ds) s = Inr (l, s1)"
    and t1: "test L s1 (train_data ds) = Inr (r1, s2)"
    and t2: "test L s2 (val_data ds) = Inr (r2, s3)"
    and t3: "test L s3 (test_data ds) = Inr (r3, s4)"
    and s': "s' = s4\<lparr>stdout := stdout s4 @
               [\<lparr>epoch = ep, loss = l, train_rmse = r1, val_rmse = r2, test_rmse = r3\<rparr>]\<rparr>"
    using assms by (auto simp: epoch_body_def split: sum.splits)
  have "stdout s4 = stdout s \<and> map_option lr (optimizer s4) = map_option lr (optimizer s)"
    using train_frame [OF t] test_frame [OF t1] test_frame [OF t2] test_frame [OF t3] by simp
  then show ?thesis using t t1 t2 t3 s' by auto
qed

lemma run_epochs_states:
  assumes "run_epochs L weight ds eps s = Inr s'"
  shows "\<exists>ss. length ss = Suc (length eps) \<and> ss ! 0 = s \<and> ss ! length eps = s' \<and>
           (\<forall>k<length eps. epoch_body L weight ds (eps ! k) (ss ! k) = Inr (ss ! Suc k))"
  using assms
proof (induction eps arbitrary: s)
  case Nil
  then show ?case by (intro exI [of _ "[s]"]) simp
next
  case (Cons ep eps)
  then obtain s1 where b: "epoch_body L weight ds ep s = Inr s1"
    and r: "run_epochs L weight ds eps s1 = Inr s'"
    by (auto split: sum.splits)
  from Cons.IH [OF r] obtain ss where ss: "length ss = Suc (length eps)" "ss ! 0 = s1"
    "ss ! length eps = s'"
    "\<forall>k<length eps. epoch_body L weight ds (eps ! k) (ss ! k) = Inr (ss ! Suc k)"
    by blast
  have "\<forall>k<length (ep # eps).
          epoch_body L weight ds ((ep # eps) ! k) ((s # ss) ! k) = Inr ((s # ss) ! Suc k)"
  proof (intro allI impI)
    fix k assume k: "k < length (ep # eps)"
    show "epoch_body L weight ds ((ep # eps) ! k) ((s # ss) ! k) = Inr ((s # ss) ! Suc k)"
    proof (cases k)
      case 0
      then show ?thesis using b ss(2) by simp
    next
      case (Suc j)
      then show ?thesis using k ss(4) by simp
    qed
  qed
  then show ?case using ss by (intro exI [of _ "s # ss"]) simp
qed

lemma run_epochs_stdout:
  assumes "run_epochs L weight ds eps s = Inr s'"
  shows "\<exists>lines. stdout s' = stdout s @ lines \<and> map epoch lines = eps \<and>
           map_option lr (optimizer s') = map_option lr (optimizer s)"
  using assms
proof (induction eps arbitrary: s)
  case Nil
  then show ?case by simp
next
  case (Cons ep eps)
  then obtain s1 where b: "epoch_body L weight ds ep s = Inr s1"
    and r: "run_epochs L weight ds eps s1 = Inr s'"
    by (auto split: sum.splits)
  from epoch_body_line [OF b] obtain ln where
    l1: "stdout s1 = stdout s @ [ln]" and e1: "epoch ln = ep"
    and o1: "map_option lr (optimizer s1) = map_option lr (optimizer s)"
    by force
  from Cons.IH [OF r] obtain lines where
    l2: "stdout s' = stdout s1 @ lines" and e2: "map epoch lines = eps"
    and o2: "map_option lr (optimizer s') = map_option lr (optimizer s1)"
    by blast
  show ?case
    using l1 e1 o1 l2 e2 o2 by (intro exI [of _ "ln # lines"]) simp
qed

text \<open>
  C7. The loop is a recursion over the 300 epoch numbers, so it ends. When no call
  raises, it has run the body exactly 300 times, for the epochs 1 to 300 in order: there
  are 301 sessions, the first the one the loop starts in and the last the one it ends in,
  and the \<open>k\<close>-th body trains once, evaluates the training, validation and test split in
  this order, and prints one line with the epoch number \<open>k + 1\<close>, the loss of that training
  step and the three RMSE values. So 300 lines are printed whatever the values are (nothing
  stops the loop early), and the learning rate of the optimizer is at the end what it was
  at the start. The session holds no file: the lines printed are the loop's only output.
\<close>

theorem epoch_loop_300_iterations:
  assumes "epoch_loop L weight ds s = Inr s'"
  shows "(\<exists>ss. length ss = 301 \<and> ss ! 0 = s \<and> ss ! 300 = s' \<and>
           (\<forall>k<300. \<exists>l r1 r2 r3 s1 s2 s3 s4.
              train L weight (train_data ds) (ss ! k) = Inr (l, s1) \<and>
              test L s1 (train_data ds) = Inr (r1, s2) \<and>
              test L s2 (val_data ds) = Inr (r2, s3) \<and>
              test L s3 (test_data ds) = Inr (r3, s4) \<and>
              stdout (ss ! Suc k) = stdout (ss ! k) @
                [\<lparr>epoch = Suc k, loss = l, train_rmse = r1, val_rmse = r2, test_rmse = r3\<rparr>])) \<and>
         (\<exists>lines. stdout s' = stdout s @ lines \<and> length lines = 300 \<and>
            map epoch lines = [1..<301]) \<and>
         map_option lr (optimizer s') = map_option lr (optimizer s)"
proof -
  have run: "run_epochs L weight ds [1..<301] s = Inr s'"
    using assms by (simp add: epoch_loop_def)
  have len: "length [1..<301] = (300::nat)" by simp
  from run_epochs_states [OF run] obtain ss where
    ss: "length ss = 301" "ss ! 0 = s" "ss ! 300 = s'"
    and step: "\<forall>k<300. epoch_body L weight ds ([1..<301] ! k) (ss ! k) = Inr (ss ! Suc k)"
    unfolding len by auto
  have each: "\<exists>l r1 r2 r3 s1 s2 s3 s4.
              train L weight (train_data ds) (ss ! k) = Inr (l, s1) \<and>
              test L s1 (train_data ds) = Inr (r1, s2) \<and>
              test L s2 (val_data ds) = Inr (r2, s3) \<and>
              test L s3 (test_data ds) = Inr (r3, s4) \<and>
              stdout (ss ! Suc k) = stdout (ss ! k) @
                [\<lparr>epoch = Suc k, loss = l, train_rmse = r1, val_rmse = r2, test_rmse = r3\<rparr>]"
    if k: "k < 300" for k
  proof -
    have nth: "[1..<301] ! k = Suc k" using k by simp
    have "epoch_body L weight ds (Suc k) (ss ! k) = Inr (ss ! Suc k)"
      using step k nth by simp
    from epoch_body_line [OF this] show ?thesis by blast
  qed
  from run_epochs_stdout [OF run] obtain lines where
    lines: "stdout s' = stdout s @ lines" "map epoch lines = [1..<301]"
    and o: "map_option lr (optimizer s') = map_option lr (optimizer s)" by blast
  have "length lines = 300"
    using lines(2) len by (metis length_map)
  then show ?thesis using ss each lines o by blast
qed

lemma example_test_inv:
  assumes "encoder s = Materialized ()" and "decoder s = EdgeDecoder 1 example_init"
    and "optimizer s = Some opt"
  shows "\<exists>s'. test example_library s example_data = Inr (Fin 0, s') \<and>
           encoder s' = Materialized () \<and> decoder s' = EdgeDecoder 1 example_init \<and>
           optimizer s' = Some opt"
  using example_test [OF assms(1,2)] assms by simp

lemma example_run:
  assumes "encoder s = Materialized ()" and "decoder s = EdgeDecoder 1 example_init"
    and "optimizer s = Some opt"
  shows "\<exists>s'. run_epochs example_library None example_splits eps s = Inr s'"
  using assms
proof (induction eps arbitrary: s)
  case Nil
  then show ?case by simp
next
  case (Cons ep eps)
  from example_train [OF Cons.prems] obtain s1 where
    t: "train example_library None example_data s = Inr (Fin 1, s1)"
    and i1: "encoder s1 = Materialized ()" "decoder s1 = EdgeDecoder 1 example_init"
      "optimizer s1 = Some opt" by blast
  from example_test_inv [OF i1] obtain s2 where
    t1: "test example_library s1 example_data = Inr (Fin 0, s2)"
    and i2: "encoder s2 = Materialized ()" "decoder s2 = EdgeDecoder 1 example_init"
      "optimizer s2 = Some opt" by blast
  from example_test_inv [OF i2] obtain s3 where
    t2: "test example_library s2 example_data = Inr (Fin 0, s3)"
    and i3: "encoder s3 = Materialized ()" "decoder s3 = EdgeDecoder 1 example_init"
      "optimizer s3 = Some opt" by blast
  from example_test_inv [OF i3] obtain s4 where
    t3: "test example_library s3 example_data = Inr (Fin 0, s4)"
    and i4: "encoder s4 = Materialized ()" "decoder s4 = EdgeDecoder 1 example_init"
      "optimizer s4 = Some opt" by blast
  let ?s5 = "s4\<lparr>stdout := stdout s4 @
      [\<lparr>epoch = ep, loss = Fin 1, train_rmse = Fin 0, val_rmse = Fin 0, test_rmse = Fin 0\<rparr>]\<rparr>"
  have b: "epoch_body example_library None example_splits ep s = Inr ?s5"
    unfolding epoch_body_def example_splits_def
    by (simp only: splits.simps t t1 t2 t3 sum.case prod.case)
  have "\<exists>s'. run_epochs example_library None example_splits eps ?s5 = Inr s'"
    using i4 by (intro Cons.IH) simp_all
  then show ?case using b by simp
qed

theorem epoch_loop_300_iterations_witness:
  "\<exists>s'. epoch_loop example_library None example_splits example_session = Inr s' \<and>
     length (stdout s') = 300 \<and> map epoch (stdout s') = [1..<301] \<and>
     map_option lr (optimizer s') = Some (1 / 100)"
proof -
  have "\<exists>s'. run_epochs example_library None example_splits [1..<301] example_session = Inr s'"
    by (rule example_run [of _ "\<lparr>lr = 1 / 100, moments = ()\<rparr>"]) (simp_all add: example_session_def)
  then obtain s' where
    r: "epoch_loop example_library None example_splits example_session = Inr s'"
    by (auto simp: epoch_loop_def)
  from epoch_loop_300_iterations [OF r] obtain lines where
    "stdout s' = stdout example_session @ lines" "length lines = 300"
    "map epoch lines = [1..<301]"
    and o: "map_option lr (optimizer s') = map_option lr (optimizer example_session)"
    by blast
  then show ?thesis using r by (auto simp: example_session_def)
qed

end
